theory Spec2Isabelle
  imports Complex_Main "HOL-Library.Char_ord" "HOL-Library.List_Lexorder"
begin

section \<open>The meal optimisation script, as it declares its model\<close>

text \<open>
  The repository is one Python script, \<^verbatim>\<open>meal-optimizer.py\<close>. It fills six tables keyed
  by ingredient name, creates the decision variables, adds an objective and eight
  constraints to a PuLP problem, writes the problem to a file, calls the solver of the
  PuLP package and prints what the solver left in the variables.

  Python strings are sequences of code points. Every code point of the script's
  ingredient names is below 256, so a name is a \<^typ>\<open>string\<close> with one \<^typ>\<open>char\<close> per
  code point: C-cedilla is \<open>0xC7\<close>, A-tilde is \<open>0xC3\<close>, O-acute is \<open>0xD3\<close>.

  The numbers of the tables are decimal literals. They are taken at their decimal value,
  as rationals; the rounding of Python's binary floating point is not modelled.
\<close>

subsection \<open>Ingredient names and tables (lines 12 to 73)\<close>

definition FRANGO :: string where
  "FRANGO = ''FRANGO''"

definition ARROZ_BRANCO :: string where
  "ARROZ_BRANCO = ''ARROZ_BRANCO''"

definition FEIJAO :: string where
  "FEIJAO = ''FEIJ'' @ [CHR 0xC3] @ ''O''"

definition FAROFA :: string where
  "FAROFA = ''FAROFA''"

definition MACA :: string where
  "MACA = ''MA'' @ [CHR 0xC7, CHR 0xC3]"

definition OLEO_DE_SOJA :: string where
  "OLEO_DE_SOJA = [CHR 0xD3] @ ''LEO_DE_SOJA''"

definition ARROZ :: string where
  "ARROZ = ''ARROZ''"

definition Ingredients :: "string list" where
  "Ingredients = [FRANGO, ARROZ_BRANCO, FEIJAO, FAROFA, MACA, OLEO_DE_SOJA]"

text \<open>A Python dict keeps its keys in insertion order: an association list.\<close>

type_synonym 'a dict = "(string \<times> 'a) list"

definition costs :: "rat dict" where
  "costs =
    [(FRANGO, 1649 / 10000),
     (ARROZ_BRANCO, 48 / 1000),
     (FEIJAO, 625 / 10000),
     (FAROFA, 178 / 1000),
     (MACA, 845 / 1000),
     (OLEO_DE_SOJA, 111 / 1000)]"

definition calorieAmount :: "rat dict" where
  "calorieAmount =
    [(FRANGO, 173 / 10),
     (ARROZ_BRANCO, 35812 / 1000),
     (FEIJAO, 32903 / 1000),
     (FAROFA, 406 / 10),
     (MACA, 81289 / 1000),
     (OLEO_DE_SOJA, 884 / 10)]"

definition proteinAmount :: "rat dict" where
  "proteinAmount =
    [(FRANGO, 3091 / 1000),
     (ARROZ_BRANCO, 724 / 1000),
     (FEIJAO, 1998 / 1000),
     (FAROFA, 21 / 100),
     (MACA, 299 / 1000),
     (OLEO_DE_SOJA, 0)]"

definition fatAmount :: "rat dict" where
  "fatAmount =
    [(FRANGO, 451 / 1000),
     (ARROZ_BRANCO, 28 / 1000),
     (FEIJAO, 126 / 1000),
     (FAROFA, 91 / 100),
     (MACA, 325 / 1000),
     (OLEO_DE_SOJA, 10)]"

definition carbohydrateAmount :: "rat dict" where
  "carbohydrateAmount =
    [(FRANGO, 0),
     (ARROZ_BRANCO, 7888 / 1000),
     (FEIJAO, 6122 / 1000),
     (FAROFA, 803 / 100),
     (MACA, 21567 / 1000),
     (OLEO_DE_SOJA, 0)]"

definition saltAmount :: "rat dict" where
  "saltAmount =
    [(FRANGO, 77 / 10),
     (ARROZ_BRANCO, 57 / 1000),
     (FEIJAO, 0),
     (FAROFA, 575),
     (MACA, 1716 / 100),
     (OLEO_DE_SOJA, 0)]"

subsection \<open>Dict operations\<close>

datatype error =
  KeyError string
  | PulpError string
  | PulpSolverError
  | AttributeError
  | TypeError

text \<open>\<^verbatim>\<open>d[k]\<close> raises \<open>KeyError\<close> on a key the dict does not hold.\<close>

definition getitem :: "'a dict \<Rightarrow> string \<Rightarrow> error + 'a" where
  "getitem d k = (case map_of d k of None \<Rightarrow> Inl (KeyError k) | Some v \<Rightarrow> Inr v)"

text \<open>
  \<^verbatim>\<open>d[k] = v\<close> replaces the value of a key the dict holds, at the key's place, and
  appends a new entry for any other key.
\<close>

fun setitem :: "string \<Rightarrow> 'a \<Rightarrow> 'a dict \<Rightarrow> 'a dict" where
  "setitem k v [] = [(k, v)]"
| "setitem k v ((k', v') # d) = (if k' = k then (k, v) # d else (k', v') # setitem k v d)"

subsection \<open>Variables (lines 80 to 92)\<close>

datatype category = LpContinuous | LpInteger

text \<open>
  A variable of the PuLP package: its name, its bounds (\<open>None\<close> is Python's \<open>None\<close>, no
  bound on that side) and its category. The constructor call
  \<^verbatim>\<open>LpVariable(name, lowBound=l, upBound=u, cat=c)\<close> makes a new variable object and
  consults no registry of names; \<open>upBound\<close> defaults to \<open>None\<close>. The package
  replaces each of the characters \<^verbatim>\<open>-+[] ->/\<close> of a name by an underscore.
\<close>

record LpVariable =
  name :: string
  lowBound :: "rat option"
  upBound :: "rat option"
  cat :: category

definition illegal_chars :: string where
  "illegal_chars = ''-+[] ->/''"

definition translate :: "string \<Rightarrow> string" where
  "translate n = map (\<lambda>c. if c \<in> set illegal_chars then CHR ''_'' else c) n"

definition mkLpVariable :: "string \<Rightarrow> rat option \<Rightarrow> rat option \<Rightarrow> category \<Rightarrow> LpVariable" where
  "mkLpVariable n l u c = \<lparr>name = translate n, lowBound = l, upBound = u, cat = c\<rparr>"

text \<open>
  \<^verbatim>\<open>LpVariable.dicts(prefix, indices, lowBound, upBound, cat)\<close> returns a dict that maps
  each index to a new variable named prefix, underscore, index.
\<close>

definition LpVariable_dicts ::
    "string \<Rightarrow> string list \<Rightarrow> rat option \<Rightarrow> rat option \<Rightarrow> category \<Rightarrow> LpVariable dict" where
  "LpVariable_dicts prefix indices l u c =
     map (\<lambda>i. (i, mkLpVariable (prefix @ ''_'' @ i) l u c)) indices"

definition ingredient_vars_dicts :: "LpVariable dict" where
  "ingredient_vars_dicts = LpVariable_dicts ''Ingr'' Ingredients (Some 0) None LpInteger"

definition apple :: LpVariable where
  "apple = mkLpVariable (''Ingr_'' @ MACA) (Some 1) (Some 1) LpInteger"

definition frango :: LpVariable where
  "frango = mkLpVariable ''Ingr_FRANGO'' (Some 3) None LpInteger"

definition feijao :: LpVariable where
  "feijao = mkLpVariable (''Ingr_'' @ FEIJAO) (Some 4) None LpInteger"

definition arroz :: LpVariable where
  "arroz = mkLpVariable ''Ingr_ARROZ'' (Some 1) None LpInteger"

definition farofa :: LpVariable where
  "farofa = mkLpVariable ''Ingr_FAROFA'' (Some 1) None LpInteger"

text \<open>The dict after the five assignments of lines 84 to 92, in the script's order.\<close>

definition ingredient_vars :: "LpVariable dict" where
  "ingredient_vars =
     setitem FAROFA farofa
       (setitem ARROZ arroz
         (setitem FEIJAO feijao
           (setitem FRANGO frango
             (setitem MACA apple ingredient_vars_dicts))))"

text \<open>
  Every variable object the script constructs, in the order of construction: the six of
  line 80, then those of lines 83, 85, 87, 89 and 91.
\<close>

definition constructed_variables :: "LpVariable list" where
  "constructed_variables = map snd ingredient_vars_dicts @ [apple, frango, feijao, arroz, farofa]"

subsection \<open>Expressions, constraints and the problem (lines 77 and 95 to 144)\<close>

text \<open>
  A linear expression is the list of its terms, a coefficient and a variable each. The
  script builds every expression as \<^verbatim>\<open>lpSum([tbl[i] * ingredient_vars[i] for i in Ingredients])\<close>:
  for each ingredient in order, the table is read, then the dict of variables, and either
  read raises \<open>KeyError\<close> on a missing key. The terms are kept as the comprehension
  yields them, one per ingredient.
\<close>

type_synonym LpAffineExpression = "(rat \<times> LpVariable) list"

fun lpSum_products :: "rat dict \<Rightarrow> LpVariable dict \<Rightarrow> string list \<Rightarrow> error + LpAffineExpression" where
  "lpSum_products tbl vars [] = Inr []"
| "lpSum_products tbl vars (i # rest) =
     (case getitem tbl i of
        Inl e \<Rightarrow> Inl e
      | Inr c \<Rightarrow>
          (case getitem vars i of
             Inl e \<Rightarrow> Inl e
           | Inr v \<Rightarrow>
               (case lpSum_products tbl vars rest of
                  Inl e \<Rightarrow> Inl e
                | Inr ts \<Rightarrow> Inr ((c, v) # ts))))"

datatype relation = LpConstraintLE | LpConstraintEQ | LpConstraintGE

record LpConstraint =
  lhs :: LpAffineExpression
  relation :: relation
  rhs :: rat

datatype sense = LpMinimize | LpMaximize

record LpProblem =
  problem_name :: string
  sense :: sense
  objective :: "LpAffineExpression option"
  objective_name :: "string option"
  constraints :: "LpConstraint dict"

text \<open>\<^verbatim>\<open>LpProblem(name, sense)\<close>: the package turns the spaces of the name into underscores.\<close>

definition mkLpProblem :: "string \<Rightarrow> sense \<Rightarrow> LpProblem" where
  "mkLpProblem n s =
     \<lparr>problem_name = map (\<lambda>c. if c = CHR '' '' then CHR ''_'' else c) n,
      sense = s, objective = None, objective_name = None, constraints = []\<rparr>"

text \<open>
  \<^verbatim>\<open>problem += (x, label)\<close>: an expression becomes the objective, a constraint is stored
  under its label, and a label already in use raises \<open>PulpError\<close>.
\<close>

datatype addend = Expression LpAffineExpression | Constraint LpConstraint

definition iadd :: "LpProblem \<Rightarrow> addend \<Rightarrow> string \<Rightarrow> error + LpProblem" where
  "iadd p a label =
     (case a of
        Expression e \<Rightarrow> Inr (p\<lparr>objective := Some e, objective_name := Some (translate label)\<rparr>)
      | Constraint c \<Rightarrow>
          (if translate label \<in> fst ` set (constraints p)
           then Inl (PulpError ''overlapping constraint names'')
           else Inr (p\<lparr>constraints := constraints p @ [(translate label, c)]\<rparr>)))"

definition bind_result :: "error + 'a \<Rightarrow> ('a \<Rightarrow> error + 'b) \<Rightarrow> error + 'b" where
  "bind_result m f = (case m of Inl e \<Rightarrow> Inl e | Inr x \<Rightarrow> f x)"

text \<open>One statement \<^verbatim>\<open>problem += (lpSum([...]) op bound, label)\<close> of lines 105 to 144.\<close>

definition add_requirement ::
    "rat dict \<Rightarrow> relation \<Rightarrow> rat \<Rightarrow> string \<Rightarrow> LpProblem \<Rightarrow> error + LpProblem" where
  "add_requirement tbl r b label p =
     bind_result (lpSum_products tbl ingredient_vars Ingredients)
       (\<lambda>e. iadd p (Constraint \<lparr>lhs = e, relation = r, rhs = b\<rparr>) label)"

text \<open>Lines 77 and 95 to 144: the problem, its objective, then the eight constraints.\<close>

definition declare_problem :: "error + LpProblem" where
  "declare_problem =
     bind_result (lpSum_products costs ingredient_vars Ingredients) (\<lambda>total.
     bind_result (iadd (mkLpProblem ''The Meal Problem'' LpMinimize) (Expression total)
                    ''Total Cost of Ingredients per meal'') (\<lambda>p0.
     bind_result (add_requirement calorieAmount LpConstraintGE 700 ''CalorieRequirement'' p0) (\<lambda>p1.
     bind_result (add_requirement proteinAmount LpConstraintGE 18 ''MinProteinRequirement'' p1) (\<lambda>p2.
     bind_result (add_requirement proteinAmount LpConstraintLE 27 ''MaxProteinRequirement'' p2) (\<lambda>p3.
     bind_result (add_requirement fatAmount LpConstraintGE 12 ''MinFatRequirement'' p3) (\<lambda>p4.
     bind_result (add_requirement fatAmount LpConstraintLE 24 ''MaxFatRequirement'' p4) (\<lambda>p5.
     bind_result (add_requirement carbohydrateAmount LpConstraintGE 98 ''MinCarbohydrateRequirement'' p5) (\<lambda>p6.
     bind_result (add_requirement carbohydrateAmount LpConstraintLE 116 ''MaxCarbohydrateRequirement'' p6) (\<lambda>p7.
     add_requirement saltAmount LpConstraintLE 800 ''SaltRequirement'' p7)))))))))"

text \<open>The script's global \<open>problem\<close> once line 144 has run.\<close>

definition problem :: LpProblem where
  "problem = projr declare_problem"

subsection \<open>Variables of a problem, assignments, feasibility\<close>

text \<open>
  \<^verbatim>\<open>problem.variables()\<close> collects the variables of the objective and of the constraints,
  each once, and returns them sorted by name.
\<close>

definition variables :: "LpProblem \<Rightarrow> LpVariable list" where
  "variables p =
     sort_key name
       (remdups
         ((case objective p of None \<Rightarrow> [] | Some e \<Rightarrow> map snd e) @
          concat (map (\<lambda>(label, c). map snd (lhs c)) (constraints p))))"

text \<open>An assignment gives each variable name a value.\<close>

type_synonym assignment = "string \<Rightarrow> rat"

text \<open>The value of an expression under an assignment: the sum of its terms.\<close>

definition valueOf :: "assignment \<Rightarrow> LpAffineExpression \<Rightarrow> rat" where
  "valueOf x e = sum_list (map (\<lambda>(c, v). c * x (name v)) e)"

definition satisfies :: "assignment \<Rightarrow> LpConstraint \<Rightarrow> bool" where
  "satisfies x c =
     (case relation c of
        LpConstraintLE \<Rightarrow> valueOf x (lhs c) \<le> rhs c
      | LpConstraintEQ \<Rightarrow> valueOf x (lhs c) = rhs c
      | LpConstraintGE \<Rightarrow> valueOf x (lhs c) \<ge> rhs c)"

definition above_lowBound :: "LpVariable \<Rightarrow> rat \<Rightarrow> bool" where
  "above_lowBound v r = (case lowBound v of None \<Rightarrow> True | Some l \<Rightarrow> l \<le> r)"

definition below_upBound :: "LpVariable \<Rightarrow> rat \<Rightarrow> bool" where
  "below_upBound v r = (case upBound v of None \<Rightarrow> True | Some u \<Rightarrow> r \<le> u)"

definition integral :: "rat \<Rightarrow> bool" where
  "integral r = (of_int \<lfloor>r\<rfloor> = r)"

definition admits :: "LpVariable \<Rightarrow> rat \<Rightarrow> bool" where
  "admits v r =
     (above_lowBound v r \<and> below_upBound v r \<and>
      (case cat v of LpContinuous \<Rightarrow> True | LpInteger \<Rightarrow> integral r))"

definition feasible :: "LpProblem \<Rightarrow> assignment \<Rightarrow> bool" where
  "feasible p x =
     (list_all (\<lambda>v. admits v (x (name v))) (variables p) \<and>
      list_all (\<lambda>(label, c). satisfies x c) (constraints p))"

text \<open>The lower bounds alone, as a predicate of their own.\<close>

definition respects_lowBounds :: "LpProblem \<Rightarrow> assignment \<Rightarrow> bool" where
  "respects_lowBounds p x = list_all (\<lambda>v. above_lowBound v (x (name v))) (variables p)"

subsection \<open>Writing, solving and reporting (lines 147 to 186)\<close>

text \<open>
  What the script does to the outside, in order: the file it writes, the lines it
  prints, and the exception that ends it, if any. A number printed through a format
  such as \<^verbatim>\<open>{x:.2f}\<close> is kept exactly, between the text before it and the text after it.
\<close>

datatype effect =
  Wrote string
  | Print string
  | PrintStatus string
  | PrintVariable string "rat option"
  | PrintTotal string rat string
  | Raised error

text \<open>
  \<^verbatim>\<open>problem.writeLP(file)\<close>: the package refuses (\<open>PulpError\<close>) a problem with a
  variable name longer than 100 characters or with two variables of one name, among the
  variables of the problem.
\<close>

definition writeLP :: "LpProblem \<Rightarrow> string \<Rightarrow> error + effect" where
  "writeLP p file =
     (if \<not> list_all (\<lambda>v. length (name v) \<le> 100) (variables p)
      then Inl (PulpError ''Variable names too long for Lp format'')
      else if \<not> distinct (map name (variables p))
      then Inl (PulpError ''Repeated variable names'')
      else Inr (Wrote file))"

text \<open>
  \<^verbatim>\<open>problem.solve()\<close> hands the problem to the solver the package chooses. The solver is
  no part of the repository: what it leaves behind is a parameter here, either an
  exception of the package or a status together with a value, or \<open>None\<close>, for each
  variable name.
\<close>

datatype status =
  LpStatusNotSolved
  | LpStatusOptimal
  | LpStatusInfeasible
  | LpStatusUnbounded
  | LpStatusUndefined

record solved =
  status :: status
  varValue :: "string \<Rightarrow> rat option"

definition LpStatus :: "status \<Rightarrow> string" where
  "LpStatus st =
     (case st of
        LpStatusNotSolved \<Rightarrow> ''Not Solved''
      | LpStatusOptimal \<Rightarrow> ''Optimal''
      | LpStatusInfeasible \<Rightarrow> ''Infeasible''
      | LpStatusUnbounded \<Rightarrow> ''Unbounded''
      | LpStatusUndefined \<Rightarrow> ''Undefined'')"

text \<open>
  \<^verbatim>\<open>value(e)\<close> of the package: \<open>None\<close> as soon as a variable of the expression has no
  value, the sum of the terms otherwise.
\<close>

fun value_py :: "(string \<Rightarrow> rat option) \<Rightarrow> LpAffineExpression \<Rightarrow> rat option" where
  "value_py vv [] = Some 0"
| "value_py vv ((c, v) # e) =
     (case vv (name v) of
        None \<Rightarrow> None
      | Some r \<Rightarrow> (case value_py vv e of None \<Rightarrow> None | Some t \<Rightarrow> Some (c * r + t)))"

text \<open>\<^verbatim>\<open>s.center(width)\<close> of Python, padding with spaces.\<close>

definition center :: "string \<Rightarrow> nat \<Rightarrow> string" where
  "center t width =
     (if width \<le> length t then t
      else
        (let marg = width - length t;
             left = marg div 2 + (if odd marg \<and> odd width then 1 else 0)
         in replicate left CHR '' '' @ t @ replicate (marg - left) CHR '' ''))"

text \<open>
  Lines 166 to 186: each total is computed, then printed with two decimals. Formatting
  \<open>None\<close> that way raises \<open>TypeError\<close>, and an exception ends the script.
\<close>

fun print_totals ::
    "(string \<Rightarrow> rat option) \<Rightarrow> (string \<times> (error + LpAffineExpression) \<times> string) list \<Rightarrow> effect list" where
  "print_totals vv [] = []"
| "print_totals vv ((before, Inl err, after) # rest) = [Raised err]"
| "print_totals vv ((before, Inr e, after) # rest) =
     (case value_py vv e of
        None \<Rightarrow> [Raised TypeError]
      | Some r \<Rightarrow> PrintTotal before r after # print_totals vv rest)"

text \<open>Lines 153 to 186. No statement of them looks at the status but the one that prints it.\<close>

definition report :: "LpProblem \<Rightarrow> solved \<Rightarrow> effect list" where
  "report p s =
     [Print [CHR 0x0A],
      Print (concat (replicate 50 ''-*'')),
      Print (center ''RESULTADOS'' 100),
      PrintStatus (LpStatus (status s))] @
     map (\<lambda>v. PrintVariable (name v) (varValue s (name v))) (variables p) @
     [Print ([CHR 0x0A] @ ''TOTAL VALUES: '')] @
     print_totals (varValue s)
       [(''Total Cost per meal = R$'',
           (case objective p of None \<Rightarrow> Inl AttributeError | Some e \<Rightarrow> Inr e), []),
        (''Total calories: '', lpSum_products calorieAmount ingredient_vars Ingredients, '' Kcal''),
        (''Total protein: '', lpSum_products proteinAmount ingredient_vars Ingredients, ''g''),
        (''Total fat: '', lpSum_products fatAmount ingredient_vars Ingredients, ''g''),
        (''Total carbohydrate: '', lpSum_products carbohydrateAmount ingredient_vars Ingredients, ''g''),
        (''Total salt: '', lpSum_products saltAmount ingredient_vars Ingredients, ''mg'')]"

text \<open>The whole script, given what the call of the solver leaves behind.\<close>

definition run :: "error + solved \<Rightarrow> effect list" where
  "run solver =
     (case declare_problem of
        Inl e \<Rightarrow> [Raised e]
      | Inr p \<Rightarrow>
          (case writeLP p ''MealModel.lp'' of
             Inl e \<Rightarrow> [Raised e]
           | Inr w \<Rightarrow>
               (case solver of
                  Inl e \<Rightarrow> [w, Raised e]
                | Inr s \<Rightarrow> w # report p s)))"

subsection \<open>Names used in the statements below\<close>

text \<open>
  The two variables of line 80 that no later line replaces have no name of their own in
  the script; they are called by their ingredient here.
\<close>

definition arroz_branco :: LpVariable where
  "arroz_branco = mkLpVariable ''Ingr_ARROZ_BRANCO'' (Some 0) None LpInteger"

definition oleo_de_soja :: LpVariable where
  "oleo_de_soja = mkLpVariable (''Ingr_'' @ OLEO_DE_SOJA) (Some 0) None LpInteger"

text \<open>An expression with one term for each of the six variables of the problem.\<close>

definition row :: "rat \<Rightarrow> rat \<Rightarrow> rat \<Rightarrow> rat \<Rightarrow> rat \<Rightarrow> rat \<Rightarrow> LpAffineExpression" where
  "row a b c d e f =
     [(a, frango), (b, arroz_branco), (c, feijao), (d, farofa), (e, apple), (f, oleo_de_soja)]"

text \<open>
  The assignment with the given numbers of servings of chicken, white rice, beans,
  farofa, apple and soya oil, and 0 for every other name.
\<close>

definition servings :: "rat \<Rightarrow> rat \<Rightarrow> rat \<Rightarrow> rat \<Rightarrow> rat \<Rightarrow> rat \<Rightarrow> assignment" where
  "servings q1 q2 q3 q4 q5 q6 =
     (\<lambda>n. if n = name frango then q1
          else if n = name arroz_branco then q2
          else if n = name feijao then q3
          else if n = name farofa then q4
          else if n = name apple then q5
          else if n = name oleo_de_soja then q6
          else 0)"

text \<open>Whether an effect carries a value read from the solved variables.\<close>

fun shows_value :: "effect \<Rightarrow> bool" where
  "shows_value (PrintVariable n r) = True"
| "shows_value (PrintTotal before r after) = True"
| "shows_value other = False"

text \<open>A solver outcome with status infeasible that leaves the value 0 in every variable.\<close>

definition infeasible_zeros :: solved where
  "infeasible_zeros = \<lparr>status = LpStatusInfeasible, varValue = (\<lambda>n. Some 0)\<rparr>"

text \<open>A solver outcome with status optimal that leaves a meal in the variables.\<close>

definition optimal_sample :: solved where
  "optimal_sample =
     \<lparr>status = LpStatusOptimal, varValue = (\<lambda>n. Some (servings 3 7 4 1 1 2 n))\<rparr>"

section \<open>What the declarations compute\<close>

subsection \<open>The dict of variables\<close>

lemmas ingredient_names =
  FRANGO_def ARROZ_BRANCO_def FEIJAO_def FAROFA_def MACA_def OLEO_DE_SOJA_def ARROZ_def

lemmas variable_defs =
  frango_def arroz_branco_def feijao_def farofa_def apple_def oleo_de_soja_def arroz_def

lemma ingredient_vars_dicts_eq:
  "ingredient_vars_dicts =
     [(FRANGO, mkLpVariable ''Ingr_FRANGO'' (Some 0) None LpInteger),
      (ARROZ_BRANCO, arroz_branco),
      (FEIJAO, mkLpVariable (''Ingr_'' @ FEIJAO) (Some 0) None LpInteger),
      (FAROFA, mkLpVariable ''Ingr_FAROFA'' (Some 0) None LpInteger),
      (MACA, mkLpVariable (''Ingr_'' @ MACA) (Some 0) None LpInteger),
      (OLEO_DE_SOJA, oleo_de_soja)]"
  by (simp add: ingredient_vars_dicts_def LpVariable_dicts_def Ingredients_def ingredient_names
      arroz_branco_def oleo_de_soja_def)

lemma ingredient_vars_eq:
  "ingredient_vars =
     [(FRANGO, frango), (ARROZ_BRANCO, arroz_branco), (FEIJAO, feijao), (FAROFA, farofa),
      (MACA, apple), (OLEO_DE_SOJA, oleo_de_soja), (ARROZ, arroz)]"
  by (simp add: ingredient_vars_def ingredient_vars_dicts_def LpVariable_dicts_def
      Ingredients_def ingredient_names variable_defs mkLpVariable_def translate_def
      illegal_chars_def)

lemma names_of_variables:
  "name frango = ''Ingr_FRANGO''"
  "name arroz_branco = ''Ingr_ARROZ_BRANCO''"
  "name feijao = ''Ingr_'' @ FEIJAO"
  "name farofa = ''Ingr_FAROFA''"
  "name apple = ''Ingr_'' @ MACA"
  "name oleo_de_soja = ''Ingr_'' @ OLEO_DE_SOJA"
  "name arroz = ''Ingr_ARROZ''"
  by (simp_all add: variable_defs mkLpVariable_def translate_def illegal_chars_def
      ingredient_names)

lemma attributes:
  "lowBound frango = Some 3" "upBound frango = None" "cat frango = LpInteger"
  "lowBound arroz_branco = Some 0" "upBound arroz_branco = None" "cat arroz_branco = LpInteger"
  "lowBound feijao = Some 4" "upBound feijao = None" "cat feijao = LpInteger"
  "lowBound farofa = Some 1" "upBound farofa = None" "cat farofa = LpInteger"
  "lowBound apple = Some 1" "upBound apple = Some 1" "cat apple = LpInteger"
  "lowBound oleo_de_soja = Some 0" "upBound oleo_de_soja = None" "cat oleo_de_soja = LpInteger"
  "lowBound arroz = Some 1" "upBound arroz = None" "cat arroz = LpInteger"
  by (simp_all add: variable_defs mkLpVariable_def)

lemma variables_differ:
  "distinct [frango, arroz_branco, feijao, farofa, apple, oleo_de_soja, arroz]"
proof -
  have "distinct (map name [frango, arroz_branco, feijao, farofa, apple, oleo_de_soja, arroz])"
    by (simp add: names_of_variables ingredient_names)
  then show ?thesis
    unfolding distinct_map by (rule conjunct1)
qed

lemma order_of_names:
  "name arroz_branco \<le> name farofa" "\<not> name farofa \<le> name arroz_branco"
  "name arroz_branco \<le> name feijao" "\<not> name feijao \<le> name arroz_branco"
  "name arroz_branco \<le> name frango" "\<not> name frango \<le> name arroz_branco"
  "name arroz_branco \<le> name apple" "\<not> name apple \<le> name arroz_branco"
  "name arroz_branco \<le> name oleo_de_soja" "\<not> name oleo_de_soja \<le> name arroz_branco"
  "name farofa \<le> name feijao" "\<not> name feijao \<le> name farofa"
  "name farofa \<le> name frango" "\<not> name frango \<le> name farofa"
  "name farofa \<le> name apple" "\<not> name apple \<le> name farofa"
  "name farofa \<le> name oleo_de_soja" "\<not> name oleo_de_soja \<le> name farofa"
  "name feijao \<le> name frango" "\<not> name frango \<le> name feijao"
  "name feijao \<le> name apple" "\<not> name apple \<le> name feijao"
  "name feijao \<le> name oleo_de_soja" "\<not> name oleo_de_soja \<le> name feijao"
  "name frango \<le> name apple" "\<not> name apple \<le> name frango"
  "name frango \<le> name oleo_de_soja" "\<not> name oleo_de_soja \<le> name frango"
  "name apple \<le> name oleo_de_soja" "\<not> name oleo_de_soja \<le> name apple"
  by (simp_all add: names_of_variables ingredient_names)

subsection \<open>The expressions and the problem\<close>

lemma lpSum_products_eq:
  "lpSum_products
     [(FRANGO, a), (ARROZ_BRANCO, b), (FEIJAO, c), (FAROFA, d), (MACA, e), (OLEO_DE_SOJA, f)]
     ingredient_vars Ingredients = Inr (row a b c d e f)"
  by (simp add: ingredient_vars_eq Ingredients_def getitem_def ingredient_names row_def)

lemma sums_of_tables:
  "lpSum_products costs ingredient_vars Ingredients =
     Inr (row (1649 / 10000) (48 / 1000) (625 / 10000) (178 / 1000) (845 / 1000) (111 / 1000))"
  "lpSum_products calorieAmount ingredient_vars Ingredients =
     Inr (row (173 / 10) (35812 / 1000) (32903 / 1000) (406 / 10) (81289 / 1000) (884 / 10))"
  "lpSum_products proteinAmount ingredient_vars Ingredients =
     Inr (row (3091 / 1000) (724 / 1000) (1998 / 1000) (21 / 100) (299 / 1000) 0)"
  "lpSum_products fatAmount ingredient_vars Ingredients =
     Inr (row (451 / 1000) (28 / 1000) (126 / 1000) (91 / 100) (325 / 1000) 10)"
  "lpSum_products carbohydrateAmount ingredient_vars Ingredients =
     Inr (row 0 (7888 / 1000) (6122 / 1000) (803 / 100) (21567 / 1000) 0)"
  "lpSum_products saltAmount ingredient_vars Ingredients =
     Inr (row (77 / 10) (57 / 1000) 0 575 (1716 / 100) 0)"
  unfolding costs_def calorieAmount_def proteinAmount_def fatAmount_def
    carbohydrateAmount_def saltAmount_def
  by (rule lpSum_products_eq)+

lemma translate_labels:
  "translate ''Total Cost of Ingredients per meal'' = ''Total_Cost_of_Ingredients_per_meal''"
  "translate ''CalorieRequirement'' = ''CalorieRequirement''"
  "translate ''MinProteinRequirement'' = ''MinProteinRequirement''"
  "translate ''MaxProteinRequirement'' = ''MaxProteinRequirement''"
  "translate ''MinFatRequirement'' = ''MinFatRequirement''"
  "translate ''MaxFatRequirement'' = ''MaxFatRequirement''"
  "translate ''MinCarbohydrateRequirement'' = ''MinCarbohydrateRequirement''"
  "translate ''MaxCarbohydrateRequirement'' = ''MaxCarbohydrateRequirement''"
  "translate ''SaltRequirement'' = ''SaltRequirement''"
  by (simp_all add: translate_def illegal_chars_def)

lemma declare_problem_eq:
  "declare_problem = Inr
     \<lparr>problem_name = ''The_Meal_Problem'', sense = LpMinimize,
      objective = Some (row (1649 / 10000) (48 / 1000) (625 / 10000) (178 / 1000) (845 / 1000) (111 / 1000)),
      objective_name = Some ''Total_Cost_of_Ingredients_per_meal'',
      constraints =
        [(''CalorieRequirement'',
          \<lparr>lhs = row (173 / 10) (35812 / 1000) (32903 / 1000) (406 / 10) (81289 / 1000) (884 / 10),
           relation = LpConstraintGE, rhs = 700\<rparr>),
         (''MinProteinRequirement'',
          \<lparr>lhs = row (3091 / 1000) (724 / 1000) (1998 / 1000) (21 / 100) (299 / 1000) 0,
           relation = LpConstraintGE, rhs = 18\<rparr>),
         (''MaxProteinRequirement'',
          \<lparr>lhs = row (3091 / 1000) (724 / 1000) (1998 / 1000) (21 / 100) (299 / 1000) 0,
           relation = LpConstraintLE, rhs = 27\<rparr>),
         (''MinFatRequirement'',
          \<lparr>lhs = row (451 / 1000) (28 / 1000) (126 / 1000) (91 / 100) (325 / 1000) 10,
           relation = LpConstraintGE, rhs = 12\<rparr>),
         (''MaxFatRequirement'',
          \<lparr>lhs = row (451 / 1000) (28 / 1000) (126 / 1000) (91 / 100) (325 / 1000) 10,
           relation = LpConstraintLE, rhs = 24\<rparr>),
         (''MinCarbohydrateRequirement'',
          \<lparr>lhs = row 0 (7888 / 1000) (6122 / 1000) (803 / 100) (21567 / 1000) 0,
           relation = LpConstraintGE, rhs = 98\<rparr>),
         (''MaxCarbohydrateRequirement'',
          \<lparr>lhs = row 0 (7888 / 1000) (6122 / 1000) (803 / 100) (21567 / 1000) 0,
           relation = LpConstraintLE, rhs = 116\<rparr>),
         (''SaltRequirement'',
          \<lparr>lhs = row (77 / 10) (57 / 1000) 0 575 (1716 / 100) 0,
           relation = LpConstraintLE, rhs = 800\<rparr>)]\<rparr>"
  unfolding declare_problem_def add_requirement_def sums_of_tables
  by (simp add: bind_result_def iadd_def mkLpProblem_def translate_labels)

lemmas problem_eq = problem_def [unfolded declare_problem_eq sum.sel]

lemma declare_problem_succeeds: "declare_problem = Inr problem"
  unfolding problem_def declare_problem_eq by simp

lemma sense_problem: "sense problem = LpMinimize"
  unfolding problem_eq by simp

lemma objective_problem:
  "objective problem =
     Some (row (1649 / 10000) (48 / 1000) (625 / 10000) (178 / 1000) (845 / 1000) (111 / 1000))"
  unfolding problem_eq by simp

lemma constraints_problem:
  "constraints problem =
     [(''CalorieRequirement'',
       \<lparr>lhs = row (173 / 10) (35812 / 1000) (32903 / 1000) (406 / 10) (81289 / 1000) (884 / 10),
        relation = LpConstraintGE, rhs = 700\<rparr>),
      (''MinProteinRequirement'',
       \<lparr>lhs = row (3091 / 1000) (724 / 1000) (1998 / 1000) (21 / 100) (299 / 1000) 0,
        relation = LpConstraintGE, rhs = 18\<rparr>),
      (''MaxProteinRequirement'',
       \<lparr>lhs = row (3091 / 1000) (724 / 1000) (1998 / 1000) (21 / 100) (299 / 1000) 0,
        relation = LpConstraintLE, rhs = 27\<rparr>),
      (''MinFatRequirement'',
       \<lparr>lhs = row (451 / 1000) (28 / 1000) (126 / 1000) (91 / 100) (325 / 1000) 10,
        relation = LpConstraintGE, rhs = 12\<rparr>),
      (''MaxFatRequirement'',
       \<lparr>lhs = row (451 / 1000) (28 / 1000) (126 / 1000) (91 / 100) (325 / 1000) 10,
        relation = LpConstraintLE, rhs = 24\<rparr>),
      (''MinCarbohydrateRequirement'',
       \<lparr>lhs = row 0 (7888 / 1000) (6122 / 1000) (803 / 100) (21567 / 1000) 0,
        relation = LpConstraintGE, rhs = 98\<rparr>),
      (''MaxCarbohydrateRequirement'',
       \<lparr>lhs = row 0 (7888 / 1000) (6122 / 1000) (803 / 100) (21567 / 1000) 0,
        relation = LpConstraintLE, rhs = 116\<rparr>),
      (''SaltRequirement'',
       \<lparr>lhs = row (77 / 10) (57 / 1000) 0 575 (1716 / 100) 0,
        relation = LpConstraintLE, rhs = 800\<rparr>)]"
  unfolding problem_eq by simp

subsection \<open>The variables of the problem\<close>

lemma remdups_repeat: "set xs \<subseteq> set ys \<Longrightarrow> remdups (xs @ ys) = remdups ys"
  by (induction xs) auto

lemma map_snd_row:
  "map snd (row a b c d e f) = [frango, arroz_branco, feijao, farofa, apple, oleo_de_soja]"
  by (simp add: row_def)

lemma variables_problem:
  "variables problem = [arroz_branco, farofa, feijao, frango, apple, oleo_de_soja]"
proof -
  have "variables problem =
      sort_key name [frango, arroz_branco, feijao, farofa, apple, oleo_de_soja]"
    using variables_differ
    by (simp add: variables_def objective_problem constraints_problem map_snd_row remdups_repeat)
  also have "\<dots> = [arroz_branco, farofa, feijao, frango, apple, oleo_de_soja]"
    by (simp add: order_of_names)
  finally show ?thesis .
qed

subsection \<open>Feasibility, spelled out\<close>

lemma valueOf_row:
  "valueOf x (row a b c d e f) =
     a * x (name frango) + b * x (name arroz_branco) + c * x (name feijao) +
     d * x (name farofa) + e * x (name apple) + f * x (name oleo_de_soja)"
  by (simp add: valueOf_def row_def)

lemma feasible_problem_iff:
  "feasible problem x \<longleftrightarrow>
     (integral (x (name frango)) \<and> 3 \<le> x (name frango)) \<and>
     (integral (x (name arroz_branco)) \<and> 0 \<le> x (name arroz_branco)) \<and>
     (integral (x (name feijao)) \<and> 4 \<le> x (name feijao)) \<and>
     (integral (x (name farofa)) \<and> 1 \<le> x (name farofa)) \<and>
     (integral (x (name apple)) \<and> 1 \<le> x (name apple) \<and> x (name apple) \<le> 1) \<and>
     (integral (x (name oleo_de_soja)) \<and> 0 \<le> x (name oleo_de_soja)) \<and>
     700 \<le> valueOf x (row (173 / 10) (35812 / 1000) (32903 / 1000) (406 / 10) (81289 / 1000) (884 / 10)) \<and>
     18 \<le> valueOf x (row (3091 / 1000) (724 / 1000) (1998 / 1000) (21 / 100) (299 / 1000) 0) \<and>
     valueOf x (row (3091 / 1000) (724 / 1000) (1998 / 1000) (21 / 100) (299 / 1000) 0) \<le> 27 \<and>
     12 \<le> valueOf x (row (451 / 1000) (28 / 1000) (126 / 1000) (91 / 100) (325 / 1000) 10) \<and>
     valueOf x (row (451 / 1000) (28 / 1000) (126 / 1000) (91 / 100) (325 / 1000) 10) \<le> 24 \<and>
     98 \<le> valueOf x (row 0 (7888 / 1000) (6122 / 1000) (803 / 100) (21567 / 1000) 0) \<and>
     valueOf x (row 0 (7888 / 1000) (6122 / 1000) (803 / 100) (21567 / 1000) 0) \<le> 116 \<and>
     valueOf x (row (77 / 10) (57 / 1000) 0 575 (1716 / 100) 0) \<le> 800"
  unfolding feasible_def variables_problem constraints_problem
  by (simp add: admits_def above_lowBound_def below_upBound_def attributes satisfies_def) blast

lemma integral_iff: "integral r \<longleftrightarrow> (\<exists>k::int. r = of_int k)"
  unfolding integral_def by (metis of_int_floor_cancel Ints_cases Ints_of_int)

lemma servings_at:
  "servings q1 q2 q3 q4 q5 q6 (name frango) = q1"
  "servings q1 q2 q3 q4 q5 q6 (name arroz_branco) = q2"
  "servings q1 q2 q3 q4 q5 q6 (name feijao) = q3"
  "servings q1 q2 q3 q4 q5 q6 (name farofa) = q4"
  "servings q1 q2 q3 q4 q5 q6 (name apple) = q5"
  "servings q1 q2 q3 q4 q5 q6 (name oleo_de_soja) = q6"
  by (simp_all add: servings_def names_of_variables ingredient_names)

text \<open>
  The model has solutions: three servings of chicken, seven of white rice, four of beans,
  one of farofa, one apple and two of soya oil meet every bound and every constraint.
\<close>

lemma feasible_sample: "feasible problem (servings 3 7 4 1 1 2)"
  unfolding feasible_problem_iff valueOf_row servings_at
  by (simp add: integral_def)

subsection \<open>Consequences of the constraints\<close>

lemma farofa_is_one:
  assumes "feasible problem x"
  shows "x (name farofa) = 1"
proof -
  from assms obtain k :: int where k: "x (name farofa) = of_int k"
    unfolding feasible_problem_iff integral_iff by blast
  from assms have lo: "1 \<le> x (name farofa)" and c: "3 \<le> x (name frango)"
      and a: "0 \<le> x (name arroz_branco)" and m: "1 \<le> x (name apple)"
      and salt: "valueOf x (row (77 / 10) (57 / 1000) 0 575 (1716 / 100) 0) \<le> 800"
    unfolding feasible_problem_iff by blast+
  from salt c a m have "x (name farofa) < 2"
    unfolding valueOf_row by linarith
  with lo k have "1 \<le> k" "k < 2" by simp_all
  then have "k = 1" by linarith
  with k show ?thesis by simp
qed

lemma rice_at_least_one:
  assumes "feasible problem x"
  shows "1 \<le> x (name arroz_branco)"
proof -
  from assms obtain k :: int where k: "x (name arroz_branco) = of_int k"
    unfolding feasible_problem_iff integral_iff by blast
  have r: "x (name farofa) = 1" using assms by (rule farofa_is_one)
  from assms have c: "3 \<le> x (name frango)" and m: "x (name apple) \<le> 1" "1 \<le> x (name apple)"
      and carb: "98 \<le> valueOf x (row 0 (7888 / 1000) (6122 / 1000) (803 / 100) (21567 / 1000) 0)"
      and prot: "valueOf x (row (3091 / 1000) (724 / 1000) (1998 / 1000) (21 / 100) (299 / 1000) 0) \<le> 27"
    unfolding feasible_problem_iff by blast+
  from carb prot c m r have "0 < x (name arroz_branco)"
    unfolding valueOf_row by linarith
  with k have "0 < k" by simp
  then have "1 \<le> k" by linarith
  with k show ?thesis by simp
qed

lemma value_py_valueOf:
  "list_all (\<lambda>(c, v). vv (name v) = Some (x (name v))) e \<Longrightarrow> value_py vv e = Some (valueOf x e)"
  by (induction e) (auto simp: valueOf_def)

lemma writeLP_problem: "writeLP problem ''MealModel.lp'' = Inr (Wrote ''MealModel.lp'')"
  unfolding writeLP_def variables_problem
  by (simp add: names_of_variables ingredient_names)

lemma run_solved: "run (Inr s) = Wrote ''MealModel.lp'' # report problem s"
  unfolding run_def declare_problem_succeeds by (simp add: writeLP_problem)

lemma report_problem:
  "report problem s =
     [Print [CHR 0x0A],
      Print (concat (replicate 50 ''-*'')),
      Print (center ''RESULTADOS'' 100),
      PrintStatus (LpStatus (status s)),
      PrintVariable (name arroz_branco) (varValue s (name arroz_branco)),
      PrintVariable (name farofa) (varValue s (name farofa)),
      PrintVariable (name feijao) (varValue s (name feijao)),
      PrintVariable (name frango) (varValue s (name frango)),
      PrintVariable (name apple) (varValue s (name apple)),
      PrintVariable (name oleo_de_soja) (varValue s (name oleo_de_soja)),
      Print ([CHR 0x0A] @ ''TOTAL VALUES: '')] @
     print_totals (varValue s)
       [(''Total Cost per meal = R$'',
           Inr (row (1649 / 10000) (48 / 1000) (625 / 10000) (178 / 1000) (845 / 1000) (111 / 1000)), []),
        (''Total calories: '',
           Inr (row (173 / 10) (35812 / 1000) (32903 / 1000) (406 / 10) (81289 / 1000) (884 / 10)), '' Kcal''),
        (''Total protein: '',
           Inr (row (3091 / 1000) (724 / 1000) (1998 / 1000) (21 / 100) (299 / 1000) 0), ''g''),
        (''Total fat: '',
           Inr (row (451 / 1000) (28 / 1000) (126 / 1000) (91 / 100) (325 / 1000) 10), ''g''),
        (''Total carbohydrate: '',
           Inr (row 0 (7888 / 1000) (6122 / 1000) (803 / 100) (21567 / 1000) 0), ''g''),
        (''Total salt: '',
           Inr (row (77 / 10) (57 / 1000) 0 575 (1716 / 100) 0), ''mg'')]"
  unfolding report_def variables_problem objective_problem sums_of_tables
  by simp

lemma values_of_rows:
  assumes "list_all (\<lambda>v. vv (name v) = Some (x (name v))) (variables problem)"
  shows "value_py vv (row a b c d e f) = Some (valueOf x (row a b c d e f))"
  using assms unfolding variables_problem
  by (intro value_py_valueOf) (simp add: row_def)

lemma report_with_values:
  assumes "list_all (\<lambda>v. varValue s (name v) = Some (x (name v))) (variables problem)"
  shows "report problem s =
     [Print [CHR 0x0A],
      Print (concat (replicate 50 ''-*'')),
      Print (center ''RESULTADOS'' 100),
      PrintStatus (LpStatus (status s)),
      PrintVariable (name arroz_branco) (Some (x (name arroz_branco))),
      PrintVariable (name farofa) (Some (x (name farofa))),
      PrintVariable (name feijao) (Some (x (name feijao))),
      PrintVariable (name frango) (Some (x (name frango))),
      PrintVariable (name apple) (Some (x (name apple))),
      PrintVariable (name oleo_de_soja) (Some (x (name oleo_de_soja))),
      Print ([CHR 0x0A] @ ''TOTAL VALUES: ''),
      PrintTotal ''Total Cost per meal = R$''
        (valueOf x (row (1649 / 10000) (48 / 1000) (625 / 10000) (178 / 1000) (845 / 1000) (111 / 1000))) [],
      PrintTotal ''Total calories: ''
        (valueOf x (row (173 / 10) (35812 / 1000) (32903 / 1000) (406 / 10) (81289 / 1000) (884 / 10))) '' Kcal'',
      PrintTotal ''Total protein: ''
        (valueOf x (row (3091 / 1000) (724 / 1000) (1998 / 1000) (21 / 100) (299 / 1000) 0)) ''g'',
      PrintTotal ''Total fat: ''
        (valueOf x (row (451 / 1000) (28 / 1000) (126 / 1000) (91 / 100) (325 / 1000) 10)) ''g'',
      PrintTotal ''Total carbohydrate: ''
        (valueOf x (row 0 (7888 / 1000) (6122 / 1000) (803 / 100) (21567 / 1000) 0)) ''g'',
      PrintTotal ''Total salt: ''
        (valueOf x (row (77 / 10) (57 / 1000) 0 575 (1716 / 100) 0)) ''mg'']"
proof -
  note v = values_of_rows [OF assms]
  from assms have "varValue s (name arroz_branco) = Some (x (name arroz_branco))"
      "varValue s (name farofa) = Some (x (name farofa))"
      "varValue s (name feijao) = Some (x (name feijao))"
      "varValue s (name frango) = Some (x (name frango))"
      "varValue s (name apple) = Some (x (name apple))"
      "varValue s (name oleo_de_soja) = Some (x (name oleo_de_soja))"
    unfolding variables_problem by simp_all
  then show ?thesis
    unfolding report_problem by (simp add: v)
qed

lemma cost_nonnegative:
  assumes "respects_lowBounds problem x"
  shows "0 \<le> valueOf x (row (1649 / 10000) (48 / 1000) (625 / 10000) (178 / 1000) (845 / 1000) (111 / 1000))"
proof -
  from assms have "3 \<le> x (name frango)" "0 \<le> x (name arroz_branco)" "4 \<le> x (name feijao)"
      "1 \<le> x (name farofa)" "1 \<le> x (name apple)" "0 \<le> x (name oleo_de_soja)"
    unfolding respects_lowBounds_def variables_problem
    by (simp_all add: above_lowBound_def attributes)
  then show ?thesis
    unfolding valueOf_row by linarith
qed

text \<open>Every variable of the problem is declared an integer.\<close>

lemma every_variable_integer: "list_all (\<lambda>v. cat v = LpInteger) (variables problem)"
  unfolding variables_problem by (simp add: attributes)

section \<open>The claims\<close>

text \<open>
  Claim C1. Each ingredient with a declared minimum number of servings should carry that
  minimum as the lower bound of the variable the objective and the constraints use: 1
  for the apple, 3 for chicken, 4 for beans, 1 for white rice, 1 for farofa.

  The script does so for four of the five (see \<open>attributes\<close> and \<open>ingredient_vars_eq\<close>).
  For white rice, line 90 stores the variable with lower bound 1 under the key
  \<open>ARROZ\<close>, which is no element of \<open>Ingredients\<close>: the entry of \<open>ARROZ_BRANCO\<close> stays
  the variable of line 80, with lower bound 0, and that one is the variable of the
  problem; the variable \<open>Ingr_ARROZ\<close> occurs nowhere in it. The bounds of the problem's
  variables admit a meal without rice. (That every feasible assignment nevertheless has
  at least one serving of rice is \<open>rice_at_least_one\<close>: the nutritional constraints
  force it, the declared bound does not.)
\<close>

theorem white_rice_lower_bound_is_zero:
  "getitem ingredient_vars ARROZ_BRANCO = Inr arroz_branco \<and>
   lowBound arroz_branco = Some 0 \<and>
   arroz_branco \<in> set (variables problem) \<and>
   getitem ingredient_vars ARROZ = Inr arroz \<and>
   lowBound arroz = Some 1 \<and>
   ARROZ \<notin> set Ingredients \<and>
   arroz \<notin> set (variables problem) \<and>
   list_all (\<lambda>v. admits v (servings 3 0 4 1 1 0 (name v))) (variables problem)"
proof -
  have "getitem ingredient_vars ARROZ_BRANCO = Inr arroz_branco"
      "getitem ingredient_vars ARROZ = Inr arroz"
    by (simp_all add: ingredient_vars_eq getitem_def ingredient_names)
  moreover have "ARROZ \<notin> set Ingredients"
    by (simp add: Ingredients_def ingredient_names)
  moreover have "arroz \<notin> set (variables problem)" "arroz_branco \<in> set (variables problem)"
    using variables_differ unfolding variables_problem by auto
  moreover have "list_all (\<lambda>v. admits v (servings 3 0 4 1 1 0 (name v))) (variables problem)"
    unfolding variables_problem
    by (simp add: servings_at admits_def above_lowBound_def below_upBound_def attributes integral_def)
  ultimately show ?thesis
    by (simp add: attributes)
qed

text \<open>
  Claim C2 says that the values of the variables and of the objective are read only when
  the status is optimal. The script reads them whatever the status: when the solver
  reports infeasible and leaves 0 in every variable, the six variable lines and the six
  totals are printed all the same.
\<close>

theorem values_read_when_infeasible:
  "status infeasible_zeros = LpStatusInfeasible \<and>
   filter shows_value (run (Inr infeasible_zeros)) =
     [PrintVariable ''Ingr_ARROZ_BRANCO'' (Some 0),
      PrintVariable ''Ingr_FAROFA'' (Some 0),
      PrintVariable (''Ingr_'' @ FEIJAO) (Some 0),
      PrintVariable ''Ingr_FRANGO'' (Some 0),
      PrintVariable (''Ingr_'' @ MACA) (Some 0),
      PrintVariable (''Ingr_'' @ OLEO_DE_SOJA) (Some 0),
      PrintTotal ''Total Cost per meal = R$'' 0 [],
      PrintTotal ''Total calories: '' 0 '' Kcal'',
      PrintTotal ''Total protein: '' 0 ''g'',
      PrintTotal ''Total fat: '' 0 ''g'',
      PrintTotal ''Total carbohydrate: '' 0 ''g'',
      PrintTotal ''Total salt: '' 0 ''mg'']"
proof -
  have "list_all (\<lambda>v. varValue infeasible_zeros (name v) = Some ((\<lambda>n. 0) (name v))) (variables problem)"
    unfolding variables_problem by (simp add: infeasible_zeros_def)
  from report_with_values [OF this] show ?thesis
    unfolding run_solved
    by (simp add: valueOf_row names_of_variables infeasible_zeros_def)
qed

text \<open>
  Claim C2, as the script has it: lines 161 to 186 read every variable's value and
  evaluate the objective after the solve whatever the returned status. For every solver
  outcome, replacing the status changes none of the values shown; the value of each of
  the six variables is printed; and when every variable holds a value, the total cost
  printed is the objective at those values.
\<close>

theorem report_ignores_status:
  "filter shows_value (run (Inr (s\<lparr>status := st\<rparr>))) = filter shows_value (run (Inr s)) \<and>
   PrintVariable (name frango) (varValue s (name frango)) \<in> set (run (Inr s)) \<and>
   PrintVariable (name arroz_branco) (varValue s (name arroz_branco)) \<in> set (run (Inr s)) \<and>
   PrintVariable (name feijao) (varValue s (name feijao)) \<in> set (run (Inr s)) \<and>
   PrintVariable (name farofa) (varValue s (name farofa)) \<in> set (run (Inr s)) \<and>
   PrintVariable (name apple) (varValue s (name apple)) \<in> set (run (Inr s)) \<and>
   PrintVariable (name oleo_de_soja) (varValue s (name oleo_de_soja)) \<in> set (run (Inr s)) \<and>
   (list_all (\<lambda>v. varValue s (name v) = Some (x (name v))) (variables problem) \<longrightarrow>
      PrintTotal ''Total Cost per meal = R$''
        (valueOf x (row (1649 / 10000) (48 / 1000) (625 / 10000) (178 / 1000) (845 / 1000) (111 / 1000))) []
      \<in> set (run (Inr s)))"
proof -
  have "filter shows_value (run (Inr (s\<lparr>status := st\<rparr>))) = filter shows_value (run (Inr s))"
    unfolding run_solved report_problem by simp
  moreover have "PrintVariable (name frango) (varValue s (name frango)) \<in> set (run (Inr s))"
      "PrintVariable (name arroz_branco) (varValue s (name arroz_branco)) \<in> set (run (Inr s))"
      "PrintVariable (name feijao) (varValue s (name feijao)) \<in> set (run (Inr s))"
      "PrintVariable (name farofa) (varValue s (name farofa)) \<in> set (run (Inr s))"
      "PrintVariable (name apple) (varValue s (name apple)) \<in> set (run (Inr s))"
      "PrintVariable (name oleo_de_soja) (varValue s (name oleo_de_soja)) \<in> set (run (Inr s))"
    unfolding run_solved report_problem by simp_all
  moreover have "PrintTotal ''Total Cost per meal = R$''
        (valueOf x (row (1649 / 10000) (48 / 1000) (625 / 10000) (178 / 1000) (845 / 1000) (111 / 1000))) []
      \<in> set (run (Inr s))"
    if "list_all (\<lambda>v. varValue s (name v) = Some (x (name v))) (variables problem)"
    unfolding run_solved report_with_values [OF that] by simp
  ultimately show ?thesis by blast
qed

theorem report_ignores_status_witness:
  "list_all (\<lambda>v. varValue optimal_sample (name v) = Some (servings 3 7 4 1 1 2 (name v)))
     (variables problem) \<and>
   PrintTotal ''Total Cost per meal = R$'' (23257 / 10000) [] \<in> set (run (Inr optimal_sample)) \<and>
   filter shows_value (run (Inr (optimal_sample\<lparr>status := LpStatusUnbounded\<rparr>))) =
     filter shows_value (run (Inr optimal_sample))"
proof -
  have h: "list_all (\<lambda>v. varValue optimal_sample (name v) = Some (servings 3 7 4 1 1 2 (name v)))
     (variables problem)"
    unfolding variables_problem by (simp add: optimal_sample_def)
  have v: "valueOf (servings 3 7 4 1 1 2)
      (row (1649 / 10000) (48 / 1000) (625 / 10000) (178 / 1000) (845 / 1000) (111 / 1000)) = 23257 / 10000"
    unfolding valueOf_row servings_at by simp
  note t = report_ignores_status
    [where s = optimal_sample and st = LpStatusUnbounded and x = "servings 3 7 4 1 1 2"]
  from t h have "PrintTotal ''Total Cost per meal = R$''
      (valueOf (servings 3 7 4 1 1 2)
        (row (1649 / 10000) (48 / 1000) (625 / 10000) (178 / 1000) (845 / 1000) (111 / 1000))) []
      \<in> set (run (Inr optimal_sample))"
    by blast
  then have "PrintTotal ''Total Cost per meal = R$'' (23257 / 10000) []
      \<in> set (run (Inr optimal_sample))"
    unfolding v .
  moreover from t have "filter shows_value (run (Inr (optimal_sample\<lparr>status := LpStatusUnbounded\<rparr>))) =
     filter shows_value (run (Inr optimal_sample))"
    by blast
  ultimately show ?thesis
    using h by blast
qed

text \<open>
  Claim C3 says that constructing a second variable under a name already in use is
  rejected before any solve attempt. The script constructs a second variable for each
  of the names of the apple, chicken, beans and farofa variables, and nothing is raised:
  the problem is declared, the file is written, and the solver is called (here with a
  solver that fails, so that the run ends right after the call).
\<close>

theorem repeated_names_raise_nothing:
  "count_list (map name constructed_variables) (name apple) = 2 \<and>
   count_list (map name constructed_variables) (name frango) = 2 \<and>
   count_list (map name constructed_variables) (name feijao) = 2 \<and>
   count_list (map name constructed_variables) (name farofa) = 2 \<and>
   \<not> isl declare_problem \<and>
   \<not> isl (writeLP problem ''MealModel.lp'') \<and>
   run (Inl PulpSolverError) = [Wrote ''MealModel.lp'', Raised PulpSolverError]"
proof -
  have "map name constructed_variables =
      [''Ingr_FRANGO'', ''Ingr_ARROZ_BRANCO'', ''Ingr_'' @ FEIJAO, ''Ingr_FAROFA'',
       ''Ingr_'' @ MACA, ''Ingr_'' @ OLEO_DE_SOJA,
       ''Ingr_'' @ MACA, ''Ingr_FRANGO'', ''Ingr_'' @ FEIJAO, ''Ingr_ARROZ'', ''Ingr_FAROFA'']"
    unfolding constructed_variables_def ingredient_vars_dicts_eq
    by (simp add: names_of_variables mkLpVariable_def translate_def illegal_chars_def
        ingredient_names)
  then have "count_list (map name constructed_variables) (name apple) = 2"
      "count_list (map name constructed_variables) (name frango) = 2"
      "count_list (map name constructed_variables) (name feijao) = 2"
      "count_list (map name constructed_variables) (name farofa) = 2"
    by (simp_all add: names_of_variables ingredient_names)
  moreover have "run (Inl PulpSolverError) = [Wrote ''MealModel.lp'', Raised PulpSolverError]"
    unfolding run_def declare_problem_succeeds by (simp add: writeLP_problem)
  ultimately show ?thesis
    by (simp add: declare_problem_succeeds writeLP_problem)
qed

text \<open>
  Claim C3, as the script has it: constructing a variable under a name already in use
  raises no error. The script constructs eleven variables, four names twice; for each of
  the four keys the dict then holds the later variable; the declaration of the problem
  succeeds; the six variables of the problem have six different names, so the
  duplicate-name check made when the file is written passes and the script goes on to
  the solver.
\<close>

theorem later_variable_replaces_earlier:
  "map name constructed_variables =
     map name [frango, arroz_branco, feijao, farofa, apple, oleo_de_soja,
               apple, frango, feijao, arroz, farofa] \<and>
   map (getitem ingredient_vars) [MACA, FRANGO, FEIJAO, FAROFA] =
     [Inr apple, Inr frango, Inr feijao, Inr farofa] \<and>
   declare_problem = Inr problem \<and>
   variables problem = [arroz_branco, farofa, feijao, frango, apple, oleo_de_soja] \<and>
   distinct (map name (variables problem)) \<and>
   writeLP problem ''MealModel.lp'' = Inr (Wrote ''MealModel.lp'') \<and>
   run (Inr s) = Wrote ''MealModel.lp'' # report problem s"
proof -
  have "map name constructed_variables =
     map name [frango, arroz_branco, feijao, farofa, apple, oleo_de_soja,
               apple, frango, feijao, arroz, farofa]"
    unfolding constructed_variables_def ingredient_vars_dicts_eq
    by (simp add: names_of_variables mkLpVariable_def translate_def illegal_chars_def
        ingredient_names)
  moreover have "map (getitem ingredient_vars) [MACA, FRANGO, FEIJAO, FAROFA] =
     [Inr apple, Inr frango, Inr feijao, Inr farofa]"
    by (simp add: ingredient_vars_eq getitem_def ingredient_names)
  moreover have "distinct (map name (variables problem))"
    unfolding variables_problem by (simp add: names_of_variables ingredient_names)
  ultimately show ?thesis
    using declare_problem_succeeds variables_problem writeLP_problem run_solved by simp
qed

text \<open>
  Claim C6. The problem is a minimisation, and its objective is the sum, over the six
  ingredients in the order of \<open>Ingredients\<close>, of the ingredient's entry in \<open>costs\<close> times
  the variable \<open>ingredient_vars\<close> holds for it.
\<close>

theorem objective_is_total_cost:
  "declare_problem = Inr problem \<and>
   sense problem = LpMinimize \<and>
   objective problem =
     Some [(1649 / 10000, frango), (48 / 1000, arroz_branco), (625 / 10000, feijao),
           (178 / 1000, farofa), (845 / 1000, apple), (111 / 1000, oleo_de_soja)] \<and>
   map (\<lambda>i. (getitem costs i, getitem ingredient_vars i)) Ingredients =
     [(Inr (1649 / 10000), Inr frango), (Inr (48 / 1000), Inr arroz_branco),
      (Inr (625 / 10000), Inr feijao), (Inr (178 / 1000), Inr farofa),
      (Inr (845 / 1000), Inr apple), (Inr (111 / 1000), Inr oleo_de_soja)] \<and>
   valueOf x
     [(1649 / 10000, frango), (48 / 1000, arroz_branco), (625 / 10000, feijao),
      (178 / 1000, farofa), (845 / 1000, apple), (111 / 1000, oleo_de_soja)] =
     1649 / 10000 * x ''Ingr_FRANGO'' + 48 / 1000 * x ''Ingr_ARROZ_BRANCO'' +
     625 / 10000 * x (''Ingr_'' @ FEIJAO) + 178 / 1000 * x ''Ingr_FAROFA'' +
     845 / 1000 * x (''Ingr_'' @ MACA) + 111 / 1000 * x (''Ingr_'' @ OLEO_DE_SOJA)"
proof -
  have "map (\<lambda>i. (getitem costs i, getitem ingredient_vars i)) Ingredients =
     [(Inr (1649 / 10000), Inr frango), (Inr (48 / 1000), Inr arroz_branco),
      (Inr (625 / 10000), Inr feijao), (Inr (178 / 1000), Inr farofa),
      (Inr (845 / 1000), Inr apple), (Inr (111 / 1000), Inr oleo_de_soja)]"
    by (simp add: Ingredients_def costs_def ingredient_vars_eq getitem_def ingredient_names)
  moreover have "valueOf x
     [(1649 / 10000, frango), (48 / 1000, arroz_branco), (625 / 10000, feijao),
      (178 / 1000, farofa), (845 / 1000, apple), (111 / 1000, oleo_de_soja)] =
     1649 / 10000 * x ''Ingr_FRANGO'' + 48 / 1000 * x ''Ingr_ARROZ_BRANCO'' +
     625 / 10000 * x (''Ingr_'' @ FEIJAO) + 178 / 1000 * x ''Ingr_FAROFA'' +
     845 / 1000 * x (''Ingr_'' @ MACA) + 111 / 1000 * x (''Ingr_'' @ OLEO_DE_SOJA)"
    by (simp add: valueOf_def names_of_variables)
  moreover have "objective problem =
     Some [(1649 / 10000, frango), (48 / 1000, arroz_branco), (625 / 10000, feijao),
           (178 / 1000, farofa), (845 / 1000, apple), (111 / 1000, oleo_de_soja)]"
    unfolding objective_problem row_def ..
  ultimately show ?thesis
    using declare_problem_succeeds sense_problem by blast
qed

text \<open>
  Claim C7. Every constraint of the problem relates a linear expression to a constant by
  one of the three operators; its variables are variables of the problem and current
  entries of \<open>ingredient_vars\<close>. The eight constraints are, in order, one on calories, two
  on protein, two on fat, two on carbohydrate and one on salt, each with the sum over
  that nutrient's table as its left-hand side.
\<close>

theorem constraints_are_linear_relations:
  "list_all
     (\<lambda>(label, c).
        relation c \<in> {LpConstraintLE, LpConstraintEQ, LpConstraintGE} \<and>
        set (map snd (lhs c)) \<subseteq> set (variables problem) \<and>
        set (map snd (lhs c)) \<subseteq> set (map snd ingredient_vars))
     (constraints problem) \<and>
   map (\<lambda>(label, c). (label, relation c, rhs c)) (constraints problem) =
     [(''CalorieRequirement'', LpConstraintGE, 700),
      (''MinProteinRequirement'', LpConstraintGE, 18),
      (''MaxProteinRequirement'', LpConstraintLE, 27),
      (''MinFatRequirement'', LpConstraintGE, 12),
      (''MaxFatRequirement'', LpConstraintLE, 24),
      (''MinCarbohydrateRequirement'', LpConstraintGE, 98),
      (''MaxCarbohydrateRequirement'', LpConstraintLE, 116),
      (''SaltRequirement'', LpConstraintLE, 800)] \<and>
   map (\<lambda>(label, c). Inr (lhs c)) (constraints problem) =
     [lpSum_products calorieAmount ingredient_vars Ingredients,
      lpSum_products proteinAmount ingredient_vars Ingredients,
      lpSum_products proteinAmount ingredient_vars Ingredients,
      lpSum_products fatAmount ingredient_vars Ingredients,
      lpSum_products fatAmount ingredient_vars Ingredients,
      lpSum_products carbohydrateAmount ingredient_vars Ingredients,
      lpSum_products carbohydrateAmount ingredient_vars Ingredients,
      lpSum_products saltAmount ingredient_vars Ingredients]"
proof -
  have "list_all
     (\<lambda>(label, c).
        relation c \<in> {LpConstraintLE, LpConstraintEQ, LpConstraintGE} \<and>
        set (map snd (lhs c)) \<subseteq> set (variables problem) \<and>
        set (map snd (lhs c)) \<subseteq> set (map snd ingredient_vars))
     (constraints problem)"
    unfolding constraints_problem variables_problem ingredient_vars_eq
    by (simp add: row_def)
  moreover have "map (\<lambda>(label, c). (label, relation c, rhs c)) (constraints problem) =
     [(''CalorieRequirement'', LpConstraintGE, 700),
      (''MinProteinRequirement'', LpConstraintGE, 18),
      (''MaxProteinRequirement'', LpConstraintLE, 27),
      (''MinFatRequirement'', LpConstraintGE, 12),
      (''MaxFatRequirement'', LpConstraintLE, 24),
      (''MinCarbohydrateRequirement'', LpConstraintGE, 98),
      (''MaxCarbohydrateRequirement'', LpConstraintLE, 116),
      (''SaltRequirement'', LpConstraintLE, 800)]"
    unfolding constraints_problem by simp
  moreover have "map (\<lambda>(label, c). Inr (lhs c)) (constraints problem) =
     [lpSum_products calorieAmount ingredient_vars Ingredients,
      lpSum_products proteinAmount ingredient_vars Ingredients,
      lpSum_products proteinAmount ingredient_vars Ingredients,
      lpSum_products fatAmount ingredient_vars Ingredients,
      lpSum_products fatAmount ingredient_vars Ingredients,
      lpSum_products carbohydrateAmount ingredient_vars Ingredients,
      lpSum_products carbohydrateAmount ingredient_vars Ingredients,
      lpSum_products saltAmount ingredient_vars Ingredients]"
    unfolding constraints_problem sums_of_tables by simp
  ultimately show ?thesis by blast
qed

theorem constraints_are_linear_relations_witness:
  "(''SaltRequirement'',
      \<lparr>lhs = row (77 / 10) (57 / 1000) 0 575 (1716 / 100) 0,
       relation = LpConstraintLE, rhs = 800\<rparr>) \<in> set (constraints problem) \<and>
   set (map snd (row (77 / 10) (57 / 1000) 0 575 (1716 / 100) 0)) \<subseteq> set (variables problem) \<and>
   set (map snd (row (77 / 10) (57 / 1000) 0 575 (1716 / 100) 0)) \<subseteq> set (map snd ingredient_vars)"
proof -
  let ?c = "\<lparr>lhs = row (77 / 10) (57 / 1000) 0 575 (1716 / 100) 0,
       relation = LpConstraintLE, rhs = 800\<rparr>"
  have m: "(''SaltRequirement'', ?c) \<in> set (constraints problem)"
    unfolding constraints_problem by simp
  from constraints_are_linear_relations have "list_all
     (\<lambda>(label, c).
        relation c \<in> {LpConstraintLE, LpConstraintEQ, LpConstraintGE} \<and>
        set (map snd (lhs c)) \<subseteq> set (variables problem) \<and>
        set (map snd (lhs c)) \<subseteq> set (map snd ingredient_vars))
     (constraints problem)"
    by (rule conjunct1)
  with m have "set (map snd (lhs ?c)) \<subseteq> set (variables problem) \<and>
      set (map snd (lhs ?c)) \<subseteq> set (map snd ingredient_vars)"
    unfolding list_all_iff by fast
  with m show ?thesis by simp
qed

text \<open>
  Claim C8. The apple variable has lower bound 1 and upper bound 1, so every feasible
  assignment has exactly one apple.
\<close>

theorem apple_is_fixed:
  "getitem ingredient_vars MACA = Inr apple \<and>
   apple \<in> set (variables problem) \<and>
   lowBound apple = Some 1 \<and>
   upBound apple = Some 1 \<and>
   (feasible problem x \<longrightarrow> x (name apple) = 1)"
proof -
  have "getitem ingredient_vars MACA = Inr apple"
    by (simp add: ingredient_vars_eq getitem_def ingredient_names)
  moreover have "apple \<in> set (variables problem)"
    unfolding variables_problem by simp
  moreover have "x (name apple) = 1" if "feasible problem x"
    using that unfolding feasible_problem_iff by linarith
  ultimately show ?thesis
    by (simp add: attributes)
qed

theorem apple_is_fixed_witness:
  "feasible problem (servings 3 7 4 1 1 2) \<and> servings 3 7 4 1 1 2 (name apple) = 1"
  using apple_is_fixed [of "servings 3 7 4 1 1 2"] feasible_sample by blast

text \<open>
  Claim C9. Every feasible assignment has exactly one serving of farofa: the lower bound
  is 1, the variable is an integer, and at 575 mg of salt a serving, two servings exceed
  the 800 mg the salt constraint allows.
\<close>

theorem farofa_exactly_one:
  "getitem ingredient_vars FAROFA = Inr farofa \<and>
   lowBound farofa = Some 1 \<and>
   cat farofa = LpInteger \<and>
   getitem saltAmount FAROFA = Inr 575 \<and>
   (feasible problem x \<longrightarrow> x (name farofa) = 1)"
proof -
  have "getitem ingredient_vars FAROFA = Inr farofa"
    by (simp add: ingredient_vars_eq getitem_def ingredient_names)
  moreover have "getitem saltAmount FAROFA = Inr 575"
    by (simp add: saltAmount_def getitem_def ingredient_names)
  ultimately show ?thesis
    using farofa_is_one [of x] by (simp add: attributes)
qed

theorem farofa_exactly_one_witness:
  "feasible problem (servings 3 7 4 1 1 2) \<and> servings 3 7 4 1 1 2 (name farofa) = 1"
  using farofa_exactly_one [of "servings 3 7 4 1 1 2"] feasible_sample by blast

text \<open>
  Claim C10. Every lower bound of the problem's variables is at least 0 and every cost
  is at least 0, so the objective is at least 0 at every assignment that respects the
  lower bounds; in particular the total cost the script prints is at least 0 when the
  solver leaves such an assignment in the variables.
\<close>

theorem objective_value_nonnegative:
  "list_all (\<lambda>v. \<exists>l. lowBound v = Some l \<and> 0 \<le> l) (variables problem) \<and>
   list_all (\<lambda>(i, c). 0 \<le> c) costs \<and>
   (\<exists>e. objective problem = Some e \<and>
        list_all (\<lambda>(c, v). 0 \<le> c) e \<and>
        (respects_lowBounds problem x \<longrightarrow> 0 \<le> valueOf x e) \<and>
        (respects_lowBounds problem x \<and>
         list_all (\<lambda>v. varValue s (name v) = Some (x (name v))) (variables problem) \<and>
         PrintTotal ''Total Cost per meal = R$'' r [] \<in> set (run (Inr s)) \<longrightarrow> 0 \<le> r))"
proof -
  let ?e = "row (1649 / 10000) (48 / 1000) (625 / 10000) (178 / 1000) (845 / 1000) (111 / 1000)"
  have "list_all (\<lambda>v. \<exists>l. lowBound v = Some l \<and> 0 \<le> l) (variables problem)"
    unfolding variables_problem by (simp add: attributes)
  moreover have "list_all (\<lambda>(i, c). 0 \<le> c) costs"
    by (simp add: costs_def)
  moreover have "list_all (\<lambda>(c, v). 0 \<le> c) ?e"
    by (simp add: row_def)
  moreover have "0 \<le> r"
    if b: "respects_lowBounds problem x"
      and v: "list_all (\<lambda>v. varValue s (name v) = Some (x (name v))) (variables problem)"
      and p: "PrintTotal ''Total Cost per meal = R$'' r [] \<in> set (run (Inr s))"
  proof -
    from p have "r = valueOf x ?e"
      unfolding run_solved report_with_values [OF v] by simp
    with cost_nonnegative [OF b] show ?thesis by simp
  qed
  ultimately show ?thesis
    using objective_problem cost_nonnegative [of x] by blast
qed

theorem objective_value_nonnegative_witness:
  "respects_lowBounds problem (servings 3 0 4 1 1 0) \<and>
   (\<exists>e. objective problem = Some e \<and> 0 \<le> valueOf (servings 3 0 4 1 1 0) e)"
proof -
  have "respects_lowBounds problem (servings 3 0 4 1 1 0)"
    unfolding respects_lowBounds_def variables_problem
    by (simp add: above_lowBound_def attributes servings_at)
  with objective_value_nonnegative [of "servings 3 0 4 1 1 0"] show ?thesis
    by blast
qed

end
